theory Spec2Isabelle
  imports Main "HOL-Library.AList"
begin

section \<open>Redeem codes: data model\<close>

text \<open>
  The redeem-code engine of the storefront lives in two places: the in-memory storage
  class \<open>MemStorage\<close> (the methods on \<open>redeemCodes\<close>) and the HTTP routes
  \<open>/api/admin/redeem-codes\<close> and \<open>/api/redeem\<close>. Both are embedded here as pure
  functions on an explicit store.

  Conventions of the embedding:
  \<^item> a JavaScript string is a \<open>string\<close> of ASCII characters;
  \<^item> a JavaScript number holding a count or a limit is an \<open>int\<close>;
  \<^item> a \<open>Date\<close> is an \<open>int\<close>, the milliseconds since the epoch, and \<open>new Date()\<close> is a
    parameter \<open>now\<close> of the function that calls it;
  \<^item> \<open>randomUUID()\<close> is a parameter \<open>uuid\<close> of the function that calls it;
  \<^item> \<open>null\<close> and \<open>undefined\<close> are \<open>None\<close>; where a request body must tell an
    absent key from \<open>null\<close>, the key is an option of an option: \<open>None\<close> is the
    absent key, \<open>Some None\<close> is \<open>null\<close>.
\<close>

text \<open>
  The column \<open>value\<close> is free-form JSON. The redeem route reads
  \<open>value?.downloadUrl\<close> and \<open>value?.fileName\<close> and nothing else, each of which may be
  missing.
\<close>

record download_value =
  downloadUrl :: "string option"
  fileName :: "string option"

text \<open>The row type \<open>RedeemCode\<close> of the table \<open>redeem_codes\<close>.\<close>

record RedeemCode =
  rc_id :: string
  code :: string
  rc_type :: string
  rc_value :: download_value
  productId :: "string option"
  isMasterCode :: bool
  isActive :: bool
  usageLimit :: "int option"
  usageCount :: int
  expiresAt :: "int option"
  createdBy :: string
  createdAt :: int

text \<open>
  \<open>InsertRedeemCode\<close>: the insert schema omits \<open>id\<close>, \<open>createdAt\<close> and \<open>usageCount\<close>;
  the columns that are nullable or have a default may be absent.
\<close>

record InsertRedeemCode =
  ins_code :: string
  ins_type :: string
  ins_value :: download_value
  ins_productId :: "string option"
  ins_isMasterCode :: "bool option"
  ins_isActive :: "bool option"
  ins_usageLimit :: "int option"
  ins_expiresAt :: "int option"
  ins_createdBy :: string

text \<open>
  The update route hands \<open>req.body\<close> to the storage as it arrives, so the update data is
  whatever keys the JSON body carries: one optional entry per column (\<open>None\<close>: the key is
  absent), where a nullable column may be set to \<open>null\<close> (\<open>Some None\<close>). The keys
  \<open>id\<close> and \<open>createdAt\<close> of a body are overwritten by \<open>updateRedeemCode\<close> and are left
  out here.
\<close>

record UpdateData =
  upd_code :: "string option"
  upd_type :: "string option"
  upd_value :: "download_value option"
  upd_productId :: "string option option"
  upd_isMasterCode :: "bool option"
  upd_isActive :: "bool option"
  upd_usageLimit :: "int option option"
  upd_usageCount :: "int option"
  upd_expiresAt :: "int option option"
  upd_createdBy :: "string option"

text \<open>
  \<open>private redeemCodes: Map<string, RedeemCode>\<close>. A JavaScript \<open>Map\<close> iterates in
  insertion order, and \<open>getRedeemCodeByCode\<close> depends on that order, so the map is an
  association list: \<open>Map.set\<close> is \<open>AList.update\<close> (replace in place or append),
  \<open>Map.get\<close> is \<open>map_of\<close>, \<open>Map.delete\<close> is \<open>AList.delete\<close>, \<open>Map.values()\<close>
  is \<open>map snd\<close>.
\<close>

type_synonym store = "(string \<times> RedeemCode) list"

definition or_else :: "'a option \<Rightarrow> 'a \<Rightarrow> 'a" where
  "or_else x d = (case x of None \<Rightarrow> d | Some v \<Rightarrow> v)"

section \<open>MemStorage: the redeem-code methods\<close>

definition getRedeemCodes :: "store \<Rightarrow> RedeemCode list" where
  "getRedeemCodes s = map snd s"

definition getRedeemCode :: "string \<Rightarrow> store \<Rightarrow> RedeemCode option" where
  "getRedeemCode i s = map_of s i"

text \<open>\<open>Array.from(values).find(redeemCode => redeemCode.code === code)\<close>: exact match.\<close>

definition getRedeemCodeByCode :: "string \<Rightarrow> store \<Rightarrow> RedeemCode option" where
  "getRedeemCodeByCode c s = find (\<lambda>redeemCode. code redeemCode = c) (map snd s)"

text \<open>
  \<open>createRedeemCode\<close>. \<open>x || d\<close> takes \<open>d\<close> when \<open>x\<close> is falsy: \<open>undefined\<close>,
  \<open>null\<close>, \<open>0\<close>, the empty string and \<open>false\<close>.
\<close>

definition createRedeemCode ::
  "string \<Rightarrow> int \<Rightarrow> InsertRedeemCode \<Rightarrow> store \<Rightarrow> RedeemCode \<times> store" where
  "createRedeemCode uuid now insertRedeemCode s =
     (let redeemCode = \<lparr>
            rc_id = uuid,
            code = ins_code insertRedeemCode,
            rc_type = ins_type insertRedeemCode,
            rc_value = ins_value insertRedeemCode,
            productId = (case ins_productId insertRedeemCode of
                           None \<Rightarrow> None
                         | Some p \<Rightarrow> if p = [] then None else Some p),
            isMasterCode = or_else (ins_isMasterCode insertRedeemCode) False,
            isActive = (case ins_isActive insertRedeemCode of None \<Rightarrow> True | Some a \<Rightarrow> a),
            usageLimit = (case ins_usageLimit insertRedeemCode of
                            None \<Rightarrow> Some 1
                          | Some l \<Rightarrow> if l = 0 then Some 1 else Some l),
            usageCount = 0,
            expiresAt = ins_expiresAt insertRedeemCode,
            createdBy = ins_createdBy insertRedeemCode,
            createdAt = now \<rparr>
      in (redeemCode, AList.update uuid redeemCode s))"

text \<open>
  \<open>updateRedeemCode\<close>: \<open>{...redeemCode, ...updateData, id, createdAt: redeemCode.createdAt}\<close>.
  Every key of the update data overrides the stored field; \<open>id\<close> and \<open>createdAt\<close> are
  set again after the spread.
\<close>

definition apply_update :: "string \<Rightarrow> UpdateData \<Rightarrow> RedeemCode \<Rightarrow> RedeemCode" where
  "apply_update i updateData redeemCode = \<lparr>
      rc_id = i,
      code = or_else (upd_code updateData) (code redeemCode),
      rc_type = or_else (upd_type updateData) (rc_type redeemCode),
      rc_value = or_else (upd_value updateData) (rc_value redeemCode),
      productId = or_else (upd_productId updateData) (productId redeemCode),
      isMasterCode = or_else (upd_isMasterCode updateData) (isMasterCode redeemCode),
      isActive = or_else (upd_isActive updateData) (isActive redeemCode),
      usageLimit = or_else (upd_usageLimit updateData) (usageLimit redeemCode),
      usageCount = or_else (upd_usageCount updateData) (usageCount redeemCode),
      expiresAt = or_else (upd_expiresAt updateData) (expiresAt redeemCode),
      createdBy = or_else (upd_createdBy updateData) (createdBy redeemCode),
      createdAt = createdAt redeemCode \<rparr>"

definition updateRedeemCode ::
  "string \<Rightarrow> UpdateData \<Rightarrow> store \<Rightarrow> RedeemCode option \<times> store" where
  "updateRedeemCode i updateData s =
     (case map_of s i of
        Some redeemCode \<Rightarrow>
          (let updated = apply_update i updateData redeemCode
           in (Some updated, AList.update i updated s))
      | None \<Rightarrow> (None, s))"

definition deleteRedeemCode :: "string \<Rightarrow> store \<Rightarrow> bool \<times> store" where
  "deleteRedeemCode i s = (i \<in> fst ` set s, AList.delete i s)"

text \<open>
  \<open>incrementRedeemCodeUsage\<close> returns \<open>Promise<void>\<close>: the only result is the store.
\<close>

definition incrementRedeemCodeUsage :: "string \<Rightarrow> store \<Rightarrow> store" where
  "incrementRedeemCodeUsage i s =
     (case map_of s i of
        Some redeemCode \<Rightarrow>
          AList.update i (redeemCode\<lparr>usageCount := usageCount redeemCode + 1\<rparr>) s
      | None \<Rightarrow> s)"

definition getRedeemCodesByProduct :: "string \<Rightarrow> store \<Rightarrow> RedeemCode list" where
  "getRedeemCodesByProduct p s = filter (\<lambda>c. productId c = Some p) (map snd s)"

definition getMasterRedeemCodes :: "store \<Rightarrow> RedeemCode list" where
  "getMasterRedeemCodes s = filter (\<lambda>c. isMasterCode c) (map snd s)"

section \<open>Strings: trimming and upper-casing\<close>

text \<open>
  \<open>String.prototype.toUpperCase\<close> and the \<open>trim\<close> sanitizer of the request validation,
  on ASCII: the letters \<open>a\<close> to \<open>z\<close> go to \<open>A\<close> to \<open>Z\<close>, every other character stays;
  white space is tab, line feed, vertical tab, form feed, carriage return and space.
\<close>

definition toUpperCase_char :: "char \<Rightarrow> char" where
  "toUpperCase_char c =
     or_else (map_of (zip ''abcdefghijklmnopqrstuvwxyz'' ''ABCDEFGHIJKLMNOPQRSTUVWXYZ'') c) c"

definition toUpperCase :: "string \<Rightarrow> string" where
  "toUpperCase str = map toUpperCase_char str"

definition isSpace :: "char \<Rightarrow> bool" where
  "isSpace c = (c \<in> set [CHR 0x09, CHR 0x0A, CHR 0x0B, CHR 0x0C, CHR 0x0D, CHR '' ''])"

definition trim :: "string \<Rightarrow> string" where
  "trim str = rev (dropWhile isSpace (rev (dropWhile isSpace str)))"

section \<open>The route \<open>POST /api/redeem\<close>\<close>

record redeem_body =
  body_code :: string
  body_productId :: string

text \<open>
  The responses of the route, one constructor per \<open>res.status(...).json(...)\<close> of the
  handler and of the validation middleware; \<open>status_of\<close> and \<open>message_of\<close> give the HTTP
  status and the message each one sends. The success response carries \<open>downloadUrl\<close>,
  \<open>fileName\<close> and \<open>codeType\<close>.
\<close>

datatype redeem_response =
    ValidationFailed
  | MissingFields
  | NotFound
  | Inactive
  | Expired
  | UsageLimitReached
  | ScopeMismatch
  | Success "string option" "string option" string

fun status_of :: "redeem_response \<Rightarrow> nat" where
  "status_of ValidationFailed = 400"
| "status_of MissingFields = 400"
| "status_of NotFound = 404"
| "status_of Inactive = 400"
| "status_of Expired = 400"
| "status_of UsageLimitReached = 400"
| "status_of ScopeMismatch = 400"
| "status_of (Success d f t) = 200"

fun message_of :: "redeem_response \<Rightarrow> string" where
  "message_of ValidationFailed = ''Validation failed''"
| "message_of MissingFields = ''Code and product ID are required''"
| "message_of NotFound = ''Invalid redeem code. Please check the code and try again.''"
| "message_of Inactive = ''This code is no longer active.''"
| "message_of Expired = ''This code has expired.''"
| "message_of UsageLimitReached = ''This code has reached its usage limit.''"
| "message_of ScopeMismatch =
     ''This code is not valid for this product. Use a master code or the correct product-specific code.''"
| "message_of (Success d f t) = ''Code redeemed successfully!''"

fun is_success :: "redeem_response \<Rightarrow> bool" where
  "is_success (Success d f t) = True"
| "is_success _ = False"

text \<open>
  \<open>redeemValidation\<close>: \<open>body('code').trim().isLength({ min: 1, max: 100 })\<close>, the same for
  \<open>productId\<close>, then \<open>handleValidationErrors\<close>. The sanitizer writes the trimmed string
  back into the body; a field that fails the length check ends the request with status
  400 (\<open>None\<close> here).
\<close>

definition redeemValidation :: "redeem_body \<Rightarrow> redeem_body option" where
  "redeemValidation body =
     (let c = trim (body_code body); p = trim (body_productId body)
      in if 1 \<le> length c \<and> length c \<le> 100 \<and> 1 \<le> length p \<and> length p \<le> 100
         then Some \<lparr>body_code = c, body_productId = p\<rparr>
         else None)"

text \<open>The three conditions of the handler, in the source's words.\<close>

definition is_expired :: "int \<Rightarrow> RedeemCode \<Rightarrow> bool" where
  \<comment> \<open>\<open>redeemCode.expiresAt && new Date(redeemCode.expiresAt) < new Date()\<close>\<close>
  "is_expired now redeemCode =
     (case expiresAt redeemCode of None \<Rightarrow> False | Some t \<Rightarrow> t < now)"

definition limit_reached :: "RedeemCode \<Rightarrow> bool" where
  \<comment> \<open>\<open>redeemCode.usageLimit && redeemCode.usageCount >= redeemCode.usageLimit\<close>;
      a limit of \<open>0\<close> is falsy\<close>
  "limit_reached redeemCode =
     (case usageLimit redeemCode of
        None \<Rightarrow> False
      | Some l \<Rightarrow> l \<noteq> 0 \<and> usageCount redeemCode \<ge> l)"

definition isValidForProduct :: "string \<Rightarrow> RedeemCode \<Rightarrow> bool" where
  \<comment> \<open>\<open>redeemCode.isMasterCode || redeemCode.productId === productId\<close>\<close>
  "isValidForProduct p redeemCode =
     (isMasterCode redeemCode \<or> productId redeemCode = Some p)"

definition redeem_handler ::
  "int \<Rightarrow> redeem_body \<Rightarrow> store \<Rightarrow> redeem_response \<times> store" where
  "redeem_handler now body s =
     (if body_code body = [] \<or> body_productId body = [] then (MissingFields, s)
      else case getRedeemCodeByCode (toUpperCase (body_code body)) s of
        None \<Rightarrow> (NotFound, s)
      | Some redeemCode \<Rightarrow>
          if \<not> isActive redeemCode then (Inactive, s)
          else if is_expired now redeemCode then (Expired, s)
          else if limit_reached redeemCode then (UsageLimitReached, s)
          else if \<not> isValidForProduct (body_productId body) redeemCode
            then (ScopeMismatch, s)
          else (Success (downloadUrl (rc_value redeemCode))
                        (fileName (rc_value redeemCode))
                        (if isMasterCode redeemCode then ''master'' else ''product''),
                incrementRedeemCodeUsage (rc_id redeemCode) s))"

definition redeem :: "int \<Rightarrow> redeem_body \<Rightarrow> store \<Rightarrow> redeem_response \<times> store" where
  "redeem now body s =
     (case redeemValidation body of
        None \<Rightarrow> (ValidationFailed, s)
      | Some body' \<Rightarrow> redeem_handler now body' s)"

section \<open>The admin routes\<close>

text \<open>
  What a JSON body can hold under the key \<open>expiresAt\<close> besides \<open>null\<close>: a string
  (the admin forms send the text of their date field, the empty string when it is empty) or a
  number. JSON has no \<open>Date\<close>.
\<close>

datatype json_scalar = JsonString string | JsonNumber int

text \<open>
  The JSON body of \<open>POST /api/admin/redeem-codes\<close>, one optional entry per column the
  insert schema knows, each holding a value of the JSON type of its column (\<open>None\<close>:
  the key is absent): strings for \<open>code\<close>, \<open>type\<close> and \<open>productId\<close>, booleans for
  \<open>isMasterCode\<close> and \<open>isActive\<close>, an integer for \<open>usageLimit\<close>. For the nullable
  columns \<open>productId\<close> and \<open>usageLimit\<close> the schema accepts \<open>null\<close> as it accepts an
  absent key and \<open>createRedeemCode\<close> treats the two alike, so \<open>None\<close> stands for both.
  The keys \<open>value\<close> and \<open>expiresAt\<close> tell \<open>null\<close> (\<open>Some None\<close>) from an absent key.
  Keys the schema does not know (\<open>id\<close>, \<open>createdAt\<close>, \<open>usageCount\<close>) are stripped by
  the parser and are left out; \<open>createdBy\<close> is overwritten with the session's admin id
  before parsing.
\<close>

record create_body =
  b_code :: "string option"
  b_type :: "string option"
  b_value :: "download_value option option"
  b_productId :: "string option"
  b_isMasterCode :: "bool option"
  b_isActive :: "bool option"
  b_usageLimit :: "int option"
  b_expiresAt :: "json_scalar option option"

text \<open>
  A \<open>value\<close> of \<open>null\<close> is a payload in which the redeem route finds neither
  \<open>downloadUrl\<close> nor \<open>fileName\<close>.
\<close>

definition value_of_json :: "download_value option \<Rightarrow> download_value" where
  "value_of_json v =
     (case v of None \<Rightarrow> \<lparr>downloadUrl = None, fileName = None\<rparr> | Some d \<Rightarrow> d)"

text \<open>
  \<open>insertRedeemCodeSchema.parse({...req.body, createdBy: adminId})\<close>. The schema is
  derived from the table with \<open>id\<close>, \<open>createdAt\<close> and \<open>usageCount\<close> omitted:
  \<^item> \<open>code\<close>, \<open>type\<close> and \<open>createdBy\<close> are \<open>notNull\<close> without default, hence
    required strings;
  \<^item> \<open>value\<close> is a \<open>notNull\<close> \<open>jsonb\<close> column: the key is required, and any JSON
    value passes, \<open>null\<close> too;
  \<^item> \<open>expiresAt\<close> is a nullable \<open>timestamp\<close>: the key may be absent or \<open>null\<close>;
    anything else must be a \<open>Date\<close>, which no JSON value is, so every string or number
    under this key fails the parse;
  \<^item> every other column may be absent.
  The schema has no refinement of its own: nothing relates two fields, bounds
  \<open>usageLimit\<close> from below or looks inside \<open>value\<close>. \<open>None\<close> is the \<open>ZodError\<close>.
\<close>

definition insertRedeemCodeSchema_parse ::
  "string \<Rightarrow> create_body \<Rightarrow> InsertRedeemCode option" where
  "insertRedeemCodeSchema_parse adminId body =
     (case (b_code body, b_type body, b_value body) of
        (Some c, Some t, Some v) \<Rightarrow>
          (case b_expiresAt body of
             Some (Some d) \<Rightarrow> None
           | _ \<Rightarrow>
             Some \<lparr> ins_code = c, ins_type = t, ins_value = value_of_json v,
                    ins_productId = b_productId body,
                    ins_isMasterCode = b_isMasterCode body,
                    ins_isActive = b_isActive body,
                    ins_usageLimit = b_usageLimit body,
                    ins_expiresAt = None,
                    ins_createdBy = adminId \<rparr>)
      | _ \<Rightarrow> None)"

text \<open>
  The responses of the admin routes: 401 \<open>Invalid session\<close>, 400
  \<open>Invalid redeem code data\<close>, 201 with the created row, 404
  \<open>Redeem code not found\<close>, 200 with the updated row, 200
  \<open>Redeem code deleted successfully\<close>.
\<close>

datatype admin_response =
    InvalidSession
  | InvalidData
  | CreatedCode RedeemCode
  | CodeNotFound
  | UpdatedCode RedeemCode
  | DeletedCode

text \<open>
  The handlers run after \<open>requireAdmin\<close> has let the request through. The create
  handler reads \<open>req.session.admin?.adminId\<close> itself and answers 401 when it is falsy.
\<close>

definition post_admin_redeem_codes ::
  "string \<Rightarrow> int \<Rightarrow> string option \<Rightarrow> create_body \<Rightarrow> store \<Rightarrow> admin_response \<times> store" where
  "post_admin_redeem_codes uuid now session_adminId body s =
     (case session_adminId of
        None \<Rightarrow> (InvalidSession, s)
      | Some adminId \<Rightarrow>
          if adminId = [] then (InvalidSession, s)
          else case insertRedeemCodeSchema_parse adminId body of
            None \<Rightarrow> (InvalidData, s)
          | Some redeemCodeData \<Rightarrow>
              (let created = createRedeemCode uuid now redeemCodeData s
               in (CreatedCode (fst created), snd created)))"

definition put_admin_redeem_codes ::
  "string \<Rightarrow> UpdateData \<Rightarrow> store \<Rightarrow> admin_response \<times> store" where
  "put_admin_redeem_codes i body s =
     (case updateRedeemCode i body s of
        (None, s') \<Rightarrow> (CodeNotFound, s')
      | (Some updatedCode, s') \<Rightarrow> (UpdatedCode updatedCode, s'))"

definition delete_admin_redeem_codes :: "string \<Rightarrow> store \<Rightarrow> admin_response \<times> store" where
  "delete_admin_redeem_codes i s =
     (case deleteRedeemCode i s of
        (False, s') \<Rightarrow> (CodeNotFound, s')
      | (True, s') \<Rightarrow> (DeletedCode, s'))"

section \<open>Store states\<close>

text \<open>
  A store is well formed when its keys are distinct, as the keys of a \<open>Map\<close> are, and
  every row sits under its own \<open>id\<close>.
\<close>

definition wf_store :: "store \<Rightarrow> bool" where
  "wf_store s = (distinct (map fst s) \<and> list_all (\<lambda>(k, r). rc_id r = k) s)"

text \<open>
  The states the server can reach: it starts with no redeem codes, and each request to
  one of the four mutating routes takes it from one state to the next.
\<close>

inductive reachable :: "store \<Rightarrow> bool" where
  reachable_init: "reachable []"
| reachable_create:
    "reachable s \<Longrightarrow> reachable (snd (post_admin_redeem_codes uuid now adm body s))"
| reachable_update:
    "reachable s \<Longrightarrow> reachable (snd (put_admin_redeem_codes i upd s))"
| reachable_delete:
    "reachable s \<Longrightarrow> reachable (snd (delete_admin_redeem_codes i s))"
| reachable_redeem:
    "reachable s \<Longrightarrow> reachable (snd (redeem now rb s))"








section \<open>Sample data\<close>

definition example_value :: download_value where
  "example_value = \<lparr>downloadUrl = Some ''/dl/f.zip'', fileName = Some ''f.zip''\<rparr>"

definition no_body :: create_body where
  "no_body = \<lparr> b_code = None, b_type = None, b_value = None, b_productId = None,
       b_isMasterCode = None, b_isActive = None, b_usageLimit = None, b_expiresAt = None \<rparr>"

definition download_body :: "string \<Rightarrow> create_body" where
  "download_body c = no_body\<lparr> b_code := Some c, b_type := Some ''download'',
       b_value := Some (Some example_value) \<rparr>"

definition no_update :: UpdateData where
  "no_update = \<lparr> upd_code = None, upd_type = None, upd_value = None, upd_productId = None,
       upd_isMasterCode = None, upd_isActive = None, upd_usageLimit = None,
       upd_usageCount = None, upd_expiresAt = None, upd_createdBy = None \<rparr>"

text \<open>
  The row that \<open>POST /api/admin/redeem-codes\<close> stores for the body
  \<open>{code: "SAVE20", type: "download", value: {...}, productId: "p1"}\<close> when the
  generated id is \<open>c1\<close> and the clock reads \<open>0\<close>.
\<close>

definition example_code :: RedeemCode where
  "example_code = \<lparr> rc_id = ''c1'', code = ''SAVE20'', rc_type = ''download'',
       rc_value = example_value, productId = Some ''p1'', isMasterCode = False,
       isActive = True, usageLimit = Some 1, usageCount = 0, expiresAt = None,
       createdBy = ''admin'', createdAt = 0 \<rparr>"

definition example_master :: RedeemCode where
  "example_master = \<lparr> rc_id = ''m1'', code = ''MASTER1'', rc_type = ''download'',
       rc_value = example_value, productId = None, isMasterCode = True,
       isActive = True, usageLimit = Some 2, usageCount = 1, expiresAt = Some 1000,
       createdBy = ''admin'', createdAt = 0 \<rparr>"

section \<open>Evaluation\<close>

lemmas ex_defs = example_value_def no_body_def download_body_def no_update_def
  example_code_def example_master_def

lemmas route_defs = redeem_def redeemValidation_def redeem_handler_def
  getRedeemCodeByCode_def toUpperCase_def toUpperCase_char_def trim_def isSpace_def
  or_else_def is_expired_def limit_reached_def isValidForProduct_def
  incrementRedeemCodeUsage_def post_admin_redeem_codes_def
  insertRedeemCodeSchema_parse_def value_of_json_def createRedeemCode_def
  put_admin_redeem_codes_def
  updateRedeemCode_def apply_update_def delete_admin_redeem_codes_def
  deleteRedeemCode_def Let_def

section \<open>Well-formed stores\<close>

lemma wf_store_Nil: "wf_store []"
  by (simp add: wf_store_def)

lemma wf_store_update:
  assumes wf: "wf_store s" and k: "rc_id r = k"
  shows "wf_store (AList.update k r s)"
proof -
  have "distinct (map fst (AList.update k r s))"
    using wf by (simp add: wf_store_def distinct_update)
  moreover have "list_all (\<lambda>(k, r). rc_id r = k) s \<Longrightarrow>
      list_all (\<lambda>(k, r). rc_id r = k) (AList.update k r s)"
    using k by (induction s) auto
  ultimately show ?thesis
    using wf by (simp add: wf_store_def)
qed

lemma wf_store_delete:
  assumes wf: "wf_store s"
  shows "wf_store (AList.delete k s)"
proof -
  have "distinct (map fst (AList.delete k s))"
    using wf by (simp add: wf_store_def distinct_delete)
  moreover have "set (AList.delete k s) \<subseteq> set s"
    by (auto simp: AList.delete_eq)
  ultimately show ?thesis
    using wf by (auto simp: wf_store_def list_all_iff)
qed

lemma wf_store_map_of: "wf_store s \<Longrightarrow> map_of s k = Some r \<Longrightarrow> rc_id r = k"
  unfolding wf_store_def by (auto simp: list_all_iff dest: map_of_SomeD)

lemma wf_store_increment: "wf_store s \<Longrightarrow> wf_store (incrementRedeemCodeUsage i s)"
  by (auto simp: incrementRedeemCodeUsage_def wf_store_update wf_store_map_of
           split: option.splits)

lemma wf_store_create: "wf_store s \<Longrightarrow> wf_store (snd (createRedeemCode uuid now c s))"
  by (simp add: createRedeemCode_def Let_def wf_store_update)

lemma wf_store_updateRedeemCode:
  "wf_store s \<Longrightarrow> wf_store (snd (updateRedeemCode i u s))"
  by (auto simp: updateRedeemCode_def Let_def apply_update_def wf_store_update
           split: option.splits)

lemma wf_store_redeem_handler:
  "wf_store s \<Longrightarrow> wf_store (snd (redeem_handler now b s))"
  by (auto simp: redeem_handler_def wf_store_increment split: option.splits)

lemma wf_store_redeem: "wf_store s \<Longrightarrow> wf_store (snd (redeem now b s))"
  by (auto simp: redeem_def wf_store_redeem_handler split: option.splits)

lemma wf_store_post:
  "wf_store s \<Longrightarrow> wf_store (snd (post_admin_redeem_codes uuid now adm body s))"
  using wf_store_create[of s uuid now]
  by (auto simp: post_admin_redeem_codes_def Let_def split: option.splits)

lemma wf_store_put: "wf_store s \<Longrightarrow> wf_store (snd (put_admin_redeem_codes i u s))"
  using wf_store_updateRedeemCode[of s i u]
  by (auto simp: put_admin_redeem_codes_def split: option.splits prod.splits)

lemma wf_store_del: "wf_store s \<Longrightarrow> wf_store (snd (delete_admin_redeem_codes i s))"
  by (auto simp: delete_admin_redeem_codes_def deleteRedeemCode_def wf_store_delete
           split: bool.splits)

text \<open>Every state the server reaches is well formed.\<close>

lemma reachable_wf_store: "reachable s \<Longrightarrow> wf_store s"
  by (induction rule: reachable.induct)
     (rule wf_store_Nil wf_store_post wf_store_put wf_store_del wf_store_redeem;
      assumption?)+

section \<open>Lookup and increment\<close>

lemma find_code_in_store:
  "getRedeemCodeByCode c s = Some r \<Longrightarrow> \<exists>k. (k, r) \<in> set s \<and> code r = c"
  unfolding getRedeemCodeByCode_def
  by (induction s) (auto split: if_splits)

lemma wf_store_lookup:
  assumes "wf_store s" and "getRedeemCodeByCode c s = Some r"
  shows "map_of s (rc_id r) = Some r"
proof -
  obtain k where k: "(k, r) \<in> set s"
    using find_code_in_store[OF assms(2)] by blast
  have "rc_id r = k"
    using assms(1) k by (auto simp: wf_store_def list_all_iff)
  then show ?thesis
    using assms(1) k by (simp add: wf_store_def)
qed

lemma map_unchanged_other_key:
  "i \<notin> fst ` set s \<Longrightarrow> map (\<lambda>(k, x). if k = i then (k, f x) else (k, x)) s = s"
  by (induction s) auto

lemma update_as_map:
  "distinct (map fst s) \<Longrightarrow> map_of s i = Some r \<Longrightarrow>
   AList.update i (f r) s = map (\<lambda>(k, x). if k = i then (k, f x) else (k, x)) s"
proof (induction s)
  case Nil
  then show ?case by simp
next
  case (Cons a s)
  obtain k x where a: "a = (k, x)" by (cases a)
  show ?case
  proof (cases "k = i")
    case True
    then have "i \<notin> fst ` set s" using Cons.prems(1) a by auto
    then show ?thesis
      using True a Cons.prems(2) by (simp add: map_unchanged_other_key)
  next
    case False
    then show ?thesis
      using a Cons by simp
  qed
qed

lemma increment_found:
  assumes "wf_store s" and "getRedeemCodeByCode c s = Some r"
  shows "incrementRedeemCodeUsage (rc_id r) s =
         map (\<lambda>(k, x). if k = rc_id r
                        then (k, x\<lparr>usageCount := usageCount x + 1\<rparr>)
                        else (k, x)) s"
proof -
  have m: "map_of s (rc_id r) = Some r"
    using assms by (rule wf_store_lookup)
  have d: "distinct (map fst s)"
    using assms(1) by (simp add: wf_store_def)
  show ?thesis
    using update_as_map[OF d m, of "\<lambda>x. x\<lparr>usageCount := usageCount x + 1\<rparr>"]
    by (simp add: incrementRedeemCodeUsage_def m)
qed

lemma one_row_per_key:
  "distinct (map fst s) \<Longrightarrow> map_of s i = Some r \<Longrightarrow>
   length (filter (\<lambda>(k, x). k = i) s) = 1"
proof (induction s)
  case Nil
  then show ?case by simp
next
  case (Cons a s)
  obtain k x where a: "a = (k, x)" by (cases a)
  show ?case
  proof (cases "k = i")
    case True
    then have "i \<notin> fst ` set s" using Cons.prems(1) a by auto
    then have "filter (\<lambda>(k, x). k = i) s = []"
      by (force simp: filter_empty_conv)
    then show ?thesis using True a by simp
  next
    case False
    then show ?thesis using a Cons by simp
  qed
qed

lemma redeem_handler_reject:
  "\<not> is_success (fst (redeem_handler now b s)) \<Longrightarrow> snd (redeem_handler now b s) = s"
  by (auto simp: redeem_handler_def split: option.splits if_splits)

lemma redeem_reject:
  "\<not> is_success (fst (redeem now b s)) \<Longrightarrow> snd (redeem now b s) = s"
  by (auto simp: redeem_def redeem_handler_reject split: option.splits)

lemma redeem_success_found:
  assumes "is_success (fst (redeem now b s))"
  shows "\<exists>r. getRedeemCodeByCode (toUpperCase (trim (body_code b))) s = Some r \<and>
             snd (redeem now b s) = incrementRedeemCodeUsage (rc_id r) s \<and>
             isActive r \<and> \<not> is_expired now r \<and> \<not> limit_reached r \<and>
             isValidForProduct (trim (body_productId b)) r"
  using assms
  by (auto simp: redeem_def redeem_handler_def redeemValidation_def Let_def
           split: option.splits if_splits)

section \<open>Claims about the redeem route\<close>

text \<open>
  Claim C3. A call to redeem that is answered with a rejection leaves the store as it
  was. A call that is answered with success changes the store in one place only: the
  single row of the redeemed code has its \<open>usageCount\<close> raised by one, and every other
  row, and every other field of that row, is what it was.
\<close>

theorem redeem_side_effects:
  assumes "wf_store s"
  shows "(\<not> is_success (fst (redeem now body s)) \<longrightarrow> snd (redeem now body s) = s) \<and>
         (is_success (fst (redeem now body s)) \<longrightarrow>
            (\<exists>r. getRedeemCodeByCode (toUpperCase (trim (body_code body))) s = Some r \<and>
                 length (filter (\<lambda>(k, x). k = rc_id r) s) = 1 \<and>
                 snd (redeem now body s) =
                   map (\<lambda>(k, x). if k = rc_id r
                                  then (k, x\<lparr>usageCount := usageCount x + 1\<rparr>)
                                  else (k, x)) s))"
proof (intro conjI impI)
  assume "\<not> is_success (fst (redeem now body s))"
  then show "snd (redeem now body s) = s" by (rule redeem_reject)
next
  assume "is_success (fst (redeem now body s))"
  then obtain r where
    r: "getRedeemCodeByCode (toUpperCase (trim (body_code body))) s = Some r" and
    s': "snd (redeem now body s) = incrementRedeemCodeUsage (rc_id r) s"
    using redeem_success_found by blast
  have d: "distinct (map fst s)"
    using assms by (simp add: wf_store_def)
  have "length (filter (\<lambda>(k, x). k = rc_id r) s) = 1"
    using d wf_store_lookup[OF assms r] by (rule one_row_per_key)
  then show "\<exists>r. getRedeemCodeByCode (toUpperCase (trim (body_code body))) s = Some r \<and>
                 length (filter (\<lambda>(k, x). k = rc_id r) s) = 1 \<and>
                 snd (redeem now body s) =
                   map (\<lambda>(k, x). if k = rc_id r
                                  then (k, x\<lparr>usageCount := usageCount x + 1\<rparr>)
                                  else (k, x)) s"
    using r s' increment_found[OF assms r] by auto
qed

text \<open>
  An instance on a store of two rows: redeeming \<open>save20\<close> against its product raises
  the count of that row alone, and redeeming it against another product changes nothing.
\<close>

theorem redeem_side_effects_witness:
  "wf_store [(''c1'', example_code), (''m1'', example_master)] \<and>
   redeem 5 \<lparr>body_code = ''save20'', body_productId = ''p1''\<rparr>
       [(''c1'', example_code), (''m1'', example_master)] =
     (Success (Some ''/dl/f.zip'') (Some ''f.zip'') ''product'',
      [(''c1'', example_code\<lparr>usageCount := 1\<rparr>), (''m1'', example_master)]) \<and>
   redeem 5 \<lparr>body_code = ''save20'', body_productId = ''p2''\<rparr>
       [(''c1'', example_code), (''m1'', example_master)] =
     (ScopeMismatch, [(''c1'', example_code), (''m1'', example_master)])"
proof -
  have h: "wf_store [(''c1'', example_code), (''m1'', example_master)]"
    by (simp add: wf_store_def ex_defs)
  show ?thesis
    using h redeem_side_effects[OF h, of 5 "\<lparr>body_code = ''save20'', body_productId = ''p1''\<rparr>"]
    by (simp add: ex_defs route_defs)
qed

text \<open>
  Claim C2. For a request that passes the input validation (a code and a product id of
  1 to 100 characters after trimming), the answer is fixed by the checks in the order
  NotFound, Inactive, Expired, UsageLimitReached, ScopeMismatch, and each check that
  fires ends the request whatever the later ones would say: no row under the upper-cased
  code gives NotFound; a row that is not active gives Inactive, also when it is expired,
  used up or bound to another product; an active row that is expired gives Expired, also
  when it is used up or bound to another product; and so on down to success.
\<close>

theorem redeem_check_order:
  assumes "redeemValidation body \<noteq> None"
  shows "(getRedeemCodeByCode (toUpperCase (trim (body_code body))) s = None \<longrightarrow>
            fst (redeem now body s) = NotFound) \<and>
         (\<forall>r. getRedeemCodeByCode (toUpperCase (trim (body_code body))) s = Some r \<longrightarrow>
            (\<not> isActive r \<longrightarrow> fst (redeem now body s) = Inactive) \<and>
            (isActive r \<and> is_expired now r \<longrightarrow> fst (redeem now body s) = Expired) \<and>
            (isActive r \<and> \<not> is_expired now r \<and> limit_reached r \<longrightarrow>
               fst (redeem now body s) = UsageLimitReached) \<and>
            (isActive r \<and> \<not> is_expired now r \<and> \<not> limit_reached r \<and>
             \<not> isValidForProduct (trim (body_productId body)) r \<longrightarrow>
               fst (redeem now body s) = ScopeMismatch) \<and>
            (isActive r \<and> \<not> is_expired now r \<and> \<not> limit_reached r \<and>
             isValidForProduct (trim (body_productId body)) r \<longrightarrow>
               is_success (fst (redeem now body s))))"
  using assms
  by (auto simp: redeem_def redeem_handler_def redeemValidation_def Let_def
           split: option.splits if_splits)

text \<open>
  The order on one code: inactive, expired, used up and bound to product \<open>p1\<close>, redeemed
  against \<open>p2\<close>. It reports Inactive; made active it reports Expired; without the expiry
  UsageLimitReached; with a use left ScopeMismatch; and on an empty store NotFound.
\<close>

theorem redeem_check_order_witness:
  "redeemValidation \<lparr>body_code = ''old1'', body_productId = ''p2''\<rparr> \<noteq> None \<and>
   \<not> isActive (example_code\<lparr>code := ''OLD1'', isActive := False, expiresAt := Some 10,
                             usageCount := 1\<rparr>) \<and>
   is_expired 50 (example_code\<lparr>code := ''OLD1'', isActive := False, expiresAt := Some 10,
                                usageCount := 1\<rparr>) \<and>
   fst (redeem 50 \<lparr>body_code = ''old1'', body_productId = ''p2''\<rparr>
          [(''c1'', example_code\<lparr>code := ''OLD1'', isActive := False, expiresAt := Some 10,
                                  usageCount := 1\<rparr>)]) = Inactive \<and>
   fst (redeem 50 \<lparr>body_code = ''old1'', body_productId = ''p2''\<rparr>
          [(''c1'', example_code\<lparr>code := ''OLD1'', expiresAt := Some 10,
                                  usageCount := 1\<rparr>)]) = Expired \<and>
   fst (redeem 50 \<lparr>body_code = ''old1'', body_productId = ''p2''\<rparr>
          [(''c1'', example_code\<lparr>code := ''OLD1'', usageCount := 1\<rparr>)]) = UsageLimitReached \<and>
   fst (redeem 50 \<lparr>body_code = ''old1'', body_productId = ''p2''\<rparr>
          [(''c1'', example_code\<lparr>code := ''OLD1''\<rparr>)]) = ScopeMismatch \<and>
   fst (redeem 50 \<lparr>body_code = ''old1'', body_productId = ''p2''\<rparr> []) = NotFound"
proof -
  have h: "redeemValidation \<lparr>body_code = ''old1'', body_productId = ''p2''\<rparr> \<noteq> None"
    by (simp add: route_defs)
  show ?thesis
    using h redeem_check_order[OF h, of "[]" 50]
    by (simp add: ex_defs route_defs)
qed



text \<open>
  Claim C10. The expiry comparison is strict. When \<open>expiresAt\<close> equals the current time
  the Expired check does not fire, and the redemption succeeds when the other checks
  pass; the answer Expired is given only when the current time is after \<open>expiresAt\<close>.
\<close>

theorem expiry_is_strict:
  assumes "redeemValidation body \<noteq> None"
    and "getRedeemCodeByCode (toUpperCase (trim (body_code body))) s = Some r"
  shows "(expiresAt r = Some now \<longrightarrow> fst (redeem now body s) \<noteq> Expired) \<and>
         (expiresAt r = Some now \<and> isActive r \<and> \<not> limit_reached r \<and>
          isValidForProduct (trim (body_productId body)) r \<longrightarrow>
            is_success (fst (redeem now body s))) \<and>
         (fst (redeem now body s) = Expired \<longrightarrow> (\<exists>t. expiresAt r = Some t \<and> t < now))"
  using assms
  by (auto simp: redeem_def redeem_handler_def redeemValidation_def Let_def is_expired_def
           split: option.splits if_splits)

text \<open>
  A code that expires at time \<open>50\<close> is redeemed at \<open>50\<close> and refused as expired at
  \<open>51\<close>.
\<close>

theorem expiry_is_strict_witness:
  "redeemValidation \<lparr>body_code = ''SAVE20'', body_productId = ''p1''\<rparr> \<noteq> None \<and>
   getRedeemCodeByCode (toUpperCase (trim ''SAVE20''))
      [(''c1'', example_code\<lparr>expiresAt := Some 50\<rparr>)] =
     Some (example_code\<lparr>expiresAt := Some 50\<rparr>) \<and>
   fst (redeem 50 \<lparr>body_code = ''SAVE20'', body_productId = ''p1''\<rparr>
          [(''c1'', example_code\<lparr>expiresAt := Some 50\<rparr>)]) =
     Success (Some ''/dl/f.zip'') (Some ''f.zip'') ''product'' \<and>
   fst (redeem 51 \<lparr>body_code = ''SAVE20'', body_productId = ''p1''\<rparr>
          [(''c1'', example_code\<lparr>expiresAt := Some 50\<rparr>)]) = Expired"
proof -
  have h1: "redeemValidation \<lparr>body_code = ''SAVE20'', body_productId = ''p1''\<rparr> \<noteq> None"
    by (simp add: route_defs)
  have h2: "getRedeemCodeByCode
      (toUpperCase (trim (body_code \<lparr>body_code = ''SAVE20'', body_productId = ''p1''\<rparr>)))
      [(''c1'', example_code\<lparr>expiresAt := Some 50\<rparr>)] =
     Some (example_code\<lparr>expiresAt := Some 50\<rparr>)"
    by (simp add: ex_defs route_defs)
  show ?thesis
    using h1 h2 expiry_is_strict[OF h1 h2, of 50]
    by (simp add: ex_defs route_defs)
qed

section \<open>Usage accounting\<close>














section \<open>Claims about the admin routes\<close>

text \<open>
  Claim C4. An update request whose body carries a \<open>usageCount\<close> key overwrites the
  stored count: on a code that was never redeemed, the body \<open>{usageCount: 5}\<close> leaves
  the row with \<open>usageCount = 5\<close>. \<open>updateRedeemCode\<close> spreads the update data over the
  row and sets only \<open>id\<close> and \<open>createdAt\<close> again, and the route passes \<open>req.body\<close>
  through unparsed.
\<close>

theorem update_overwrites_usageCount:
  "usageCount example_code = 0 \<and>
   put_admin_redeem_codes ''c1'' (no_update\<lparr>upd_usageCount := Some 5\<rparr>)
       [(''c1'', example_code)] =
     (UpdatedCode (example_code\<lparr>usageCount := 5\<rparr>),
      [(''c1'', example_code\<lparr>usageCount := 5\<rparr>)])"
  by (simp add: ex_defs route_defs)

text \<open>
  Claim C6. Creating a code whose token is already stored does not fail: with
  \<open>SAVE20\<close> stored under \<open>c1\<close>, a second creation of \<open>SAVE20\<close> is answered 201 and
  appends a second row with the same token under the new id.
\<close>

theorem create_accepts_duplicate_code:
  "getRedeemCodeByCode ''SAVE20'' [(''c1'', example_code)] = Some example_code \<and>
   post_admin_redeem_codes ''c2'' 7 (Some ''admin'')
       ((download_body ''SAVE20'')\<lparr>b_productId := Some ''p1''\<rparr>)
       [(''c1'', example_code)] =
     (CreatedCode (example_code\<lparr>rc_id := ''c2'', createdAt := 7\<rparr>),
      [(''c1'', example_code), (''c2'', example_code\<lparr>rc_id := ''c2'', createdAt := 7\<rparr>)]) \<and>
   code (example_code\<lparr>rc_id := ''c2'', createdAt := 7\<rparr>) = code example_code"
  by (simp add: ex_defs route_defs)

section \<open>Letter case and white space\<close>

lemma redeem_depends_on_trimmed:
  "redeem now body s =
     (if 1 \<le> length (trim (body_code body)) \<and> length (trim (body_code body)) \<le> 100 \<and>
         1 \<le> length (trim (body_productId body)) \<and> length (trim (body_productId body)) \<le> 100
      then redeem_handler now \<lparr>body_code = trim (body_code body),
                                body_productId = trim (body_productId body)\<rparr> s
      else (ValidationFailed, s))"
  by (simp add: redeem_def redeemValidation_def Let_def)

lemma redeem_handler_cong:
  assumes "toUpperCase (body_code b1) = toUpperCase (body_code b2)"
    and "body_productId b1 = body_productId b2"
  shows "redeem_handler now b1 s = redeem_handler now b2 s"
proof -
  have "length (body_code b1) = length (body_code b2)"
    using arg_cong[OF assms(1), of length] by (simp add: toUpperCase_def)
  then have "body_code b1 = [] \<longleftrightarrow> body_code b2 = []"
    by (metis length_0_conv)
  then show ?thesis
    using assms by (auto simp: redeem_handler_def split: option.splits)
qed

text \<open>
  Claim C5, as the code has it. The redeem route trims its \<open>code\<close> input and upper-cases
  it before the lookup, and the lookup compares with the stored token exactly. So two
  inputs that agree after trimming and upper-casing get the same answer and leave the
  same store; in particular every input that differs from a stored token only in letter
  case or surrounding white space is answered as the stored spelling is.
\<close>

theorem redeem_canonical_input:
  assumes "toUpperCase (trim c1) = toUpperCase (trim c2)"
  shows "redeem now \<lparr>body_code = c1, body_productId = p\<rparr> s =
         redeem now \<lparr>body_code = c2, body_productId = p\<rparr> s"
proof -
  have len: "length (trim c1) = length (trim c2)"
    using arg_cong[OF assms, of length] by (simp add: toUpperCase_def)
  have "redeem_handler now \<lparr>body_code = trim c1, body_productId = trim p\<rparr> s =
        redeem_handler now \<lparr>body_code = trim c2, body_productId = trim p\<rparr> s"
    by (rule redeem_handler_cong) (simp_all add: assms)
  then show ?thesis
    using len by (simp add: redeem_depends_on_trimmed)
qed

text \<open>
  \<open>" save20  "\<close> and \<open>"SAVE20"\<close> are one request to the route; both redeem the
  stored code \<open>SAVE20\<close>.
\<close>

theorem redeem_canonical_input_witness:
  "toUpperCase (trim '' save20  '') = toUpperCase (trim ''SAVE20'') \<and>
   redeem 5 \<lparr>body_code = '' save20  '', body_productId = ''p1''\<rparr> [(''c1'', example_code)] =
   redeem 5 \<lparr>body_code = ''SAVE20'', body_productId = ''p1''\<rparr> [(''c1'', example_code)] \<and>
   redeem 5 \<lparr>body_code = ''SAVE20'', body_productId = ''p1''\<rparr> [(''c1'', example_code)] =
     (Success (Some ''/dl/f.zip'') (Some ''f.zip'') ''product'',
      [(''c1'', example_code\<lparr>usageCount := 1\<rparr>)])"
proof -
  have h: "toUpperCase (trim '' save20  '') = toUpperCase (trim ''SAVE20'')"
    by (simp add: route_defs)
  show ?thesis
    using h redeem_canonical_input[OF h, of 5 "''p1''" "[(''c1'', example_code)]"]
    by (simp add: ex_defs route_defs)
qed

text \<open>
  The storage does not upper-case a token. A code created as \<open>save20\<close> is stored as
  \<open>save20\<close>, which is not its upper-case form, and the lookup finds it under
  \<open>save20\<close> only, never under \<open>SAVE20\<close>.
\<close>

theorem stored_token_not_canonical_counterexample:
  "post_admin_redeem_codes ''c1'' 0 (Some ''admin'')
       ((download_body ''save20'')\<lparr>b_productId := Some ''p1''\<rparr>) [] =
     (CreatedCode (example_code\<lparr>code := ''save20''\<rparr>),
      [(''c1'', example_code\<lparr>code := ''save20''\<rparr>)]) \<and>
   code (example_code\<lparr>code := ''save20''\<rparr>) \<noteq> toUpperCase ''save20'' \<and>
   getRedeemCodeByCode ''SAVE20'' [(''c1'', example_code\<lparr>code := ''save20''\<rparr>)] = None \<and>
   getRedeemCodeByCode ''save20'' [(''c1'', example_code\<lparr>code := ''save20''\<rparr>)] =
     Some (example_code\<lparr>code := ''save20''\<rparr>)"
  by (simp add: ex_defs route_defs)

section \<open>The default usage limit\<close>









section \<open>Validation on creation\<close>

text \<open>
  Claim C8, as the code has it. Creation validates the body against the insert schema
  and nothing more. For a request with an admin session and a body whose fields have
  the JSON types of their columns, the answer is the validation error exactly when one
  of the required keys \<open>code\<close>, \<open>type\<close>, \<open>value\<close> is absent or \<open>expiresAt\<close> is sent as
  a string or a number, and a request answered with the validation error leaves the
  store as it was. Every other such body is answered with the created row, which holds
  \<open>isMasterCode\<close>, \<open>productId\<close>, \<open>usageLimit\<close> and the payload as they were sent (an
  absent \<open>isMasterCode\<close> as \<open>false\<close>, an empty \<open>productId\<close> as \<open>null\<close>, an absent or zero
  \<open>usageLimit\<close> as \<open>1\<close>): the scope fields are not checked against each other, nor the
  sign of \<open>usageLimit\<close>, nor the contents of the payload.
\<close>

theorem create_validation:
  "(fst (post_admin_redeem_codes uuid now adm body s) = InvalidData \<longleftrightarrow>
      (\<exists>a. adm = Some a \<and> a \<noteq> []) \<and>
      (b_code body = None \<or> b_type body = None \<or> b_value body = None \<or>
       (\<exists>d. b_expiresAt body = Some (Some d)))) \<and>
   (fst (post_admin_redeem_codes uuid now adm body s) = InvalidData \<longrightarrow>
      snd (post_admin_redeem_codes uuid now adm body s) = s) \<and>
   ((\<exists>a. adm = Some a \<and> a \<noteq> []) \<and>
    b_code body \<noteq> None \<and> b_type body \<noteq> None \<and> b_value body = Some v \<and>
    (b_expiresAt body = None \<or> b_expiresAt body = Some None) \<longrightarrow>
      (\<exists>row. post_admin_redeem_codes uuid now adm body s =
                 (CreatedCode row, AList.update uuid row s) \<and>
             isMasterCode row = or_else (b_isMasterCode body) False \<and>
             productId row = (if b_productId body = Some [] then None else b_productId body) \<and>
             usageLimit row =
               (if b_usageLimit body = None \<or> b_usageLimit body = Some 0 then Some 1
                else b_usageLimit body) \<and>
             rc_value row = value_of_json v))"
  by (auto simp: post_admin_redeem_codes_def insertRedeemCodeSchema_parse_def
                 createRedeemCode_def Let_def or_else_def
           split: option.splits if_splits)

text \<open>
  A body without \<open>value\<close> is refused and nothing is stored; so is the body the admin
  forms send for a code without expiry, whose \<open>expiresAt\<close> is the empty string. With
  \<open>value: null\<close> and \<open>expiresAt: null\<close> the code is created.
\<close>

theorem create_validation_witness:
  "post_admin_redeem_codes ''c2'' 7 (Some ''admin'')
       (no_body\<lparr>b_code := Some ''NEW1'', b_type := Some ''download''\<rparr>)
       [(''c1'', example_code)] =
     (InvalidData, [(''c1'', example_code)]) \<and>
   post_admin_redeem_codes ''c2'' 7 (Some ''admin'')
       ((download_body ''NEW1'')\<lparr>b_expiresAt := Some (Some (JsonString []))\<rparr>)
       [(''c1'', example_code)] =
     (InvalidData, [(''c1'', example_code)]) \<and>
   post_admin_redeem_codes ''c1'' 0 (Some ''admin'')
       (no_body\<lparr>b_code := Some ''SAVE20'', b_type := Some ''download'',
                 b_value := Some None, b_productId := Some ''p1'',
                 b_expiresAt := Some None\<rparr>) [] =
     (CreatedCode (example_code\<lparr>rc_value := \<lparr>downloadUrl = None, fileName = None\<rparr>\<rparr>),
      [(''c1'', example_code\<lparr>rc_value := \<lparr>downloadUrl = None, fileName = None\<rparr>\<rparr>)])"
  using create_validation[of "''c2''" 7 "Some ''admin''"
      "no_body\<lparr>b_code := Some ''NEW1'', b_type := Some ''download''\<rparr>"
      "[(''c1'', example_code)]"]
  by (simp add: ex_defs route_defs)

text \<open>
  A body that sets \<open>isMasterCode\<close> together with a \<open>productId\<close>, a \<open>usageLimit\<close> of \<open>-3\<close>
  and a payload with neither \<open>downloadUrl\<close> nor \<open>fileName\<close> is accepted and stored as
  it is; so is a body with neither \<open>isMasterCode\<close> nor \<open>productId\<close>.
\<close>

theorem create_accepts_unchecked_spec_counterexample:
  "post_admin_redeem_codes ''c1'' 0 (Some ''admin'')
       (no_body\<lparr>b_code := Some ''SAVE20'', b_type := Some ''download'',
                 b_value := Some (Some \<lparr>downloadUrl = None, fileName = None\<rparr>),
                 b_productId := Some ''p1'', b_isMasterCode := Some True,
                 b_usageLimit := Some (- 3)\<rparr>) [] =
     (CreatedCode (example_code\<lparr>rc_value := \<lparr>downloadUrl = None, fileName = None\<rparr>,
                                 isMasterCode := True, usageLimit := Some (- 3)\<rparr>),
      [(''c1'', example_code\<lparr>rc_value := \<lparr>downloadUrl = None, fileName = None\<rparr>,
                              isMasterCode := True, usageLimit := Some (- 3)\<rparr>)]) \<and>
   post_admin_redeem_codes ''c1'' 0 (Some ''admin'') (download_body ''SAVE20'') [] =
     (CreatedCode (example_code\<lparr>productId := None\<rparr>),
      [(''c1'', example_code\<lparr>productId := None\<rparr>)]) \<and>
   isMasterCode (example_code\<lparr>productId := None\<rparr>) = False"
  by (simp add: ex_defs route_defs)

end
